theory Spec2Isabelle
  imports Main
begin

section \<open>Configuration records and their validation\<close>

text \<open>
  The configuration structs of \<^verbatim>\<open>goserve.go\<close>. \<^verbatim>\<open>Headers\<close> is a Go map from header
  name to value; it is kept as an association list so that the iteration of
  \<^verbatim>\<open>for k, v := range headers\<close> has an order (any order is a possible one).
\<close>

type_synonym Headers = "(string \<times> string) list"

record Listener =
  Protocol :: string
  Addr :: string
  CertFile :: string
  KeyFile :: string
  ListenerHeaders :: Headers
  Gzip :: bool

record Serve =
  Target :: string
  Path :: string
  Error :: int
  PreventListing :: bool
  Headers :: Headers

record Redirect =
  From :: string
  To :: string
  With :: int

record ErrorPage =
  Status :: int
  ErrorTarget :: string

record ServerConfig =
  Listeners :: "Listener list"
  Serves :: "Serve list"
  Errors :: "ErrorPage list"
  Redirects :: "Redirect list"

text \<open>
  Every \<^verbatim>\<open>check\<close> method logs its complaints and returns \<^verbatim>\<open>ok\<close>. The model returns
  the log lines together with the result. \<^verbatim>\<open>os.Stat\<close> followed by \<^verbatim>\<open>os.IsNotExist\<close>
  is the parameter \<open>notExist\<close>.
\<close>

type_synonym checked = "string list \<times> bool"

fun itoa :: "nat \<Rightarrow> string" where
  "itoa n = (if n < 10 then [''0123456789'' ! n]
             else itoa (n div 10) @ [''0123456789'' ! (n mod 10)])"

declare itoa.simps [simp del]

definition Listener_check :: "(string \<Rightarrow> bool) \<Rightarrow> Listener \<Rightarrow> string \<Rightarrow> checked" where
  "Listener_check notExist l label =
     (if Protocol l = ''http'' then
        (if CertFile l \<noteq> [] \<or> KeyFile l \<noteq> []
         then ([label @ '': certificate supplied for non-HTTPS listener''], False)
         else ([], True))
      else if Protocol l = ''https'' then
        (let c = notExist (CertFile l); k = notExist (KeyFile l) in
         ((if c then [label @ '': cert file `'' @ CertFile l @ ''` does not exist''] else []) @
          (if k then [label @ '': key file `'' @ KeyFile l @ ''` does not exist''] else []),
          \<not> c \<and> \<not> k))
      else ([label @ '': invalid protocol `'' @ Protocol l @ ''`''], False))"

definition Serve_check :: "Serve \<Rightarrow> string \<Rightarrow> checked" where
  "Serve_check s label =
     (let a = (Path s = []);
          b = (Error s = 0 \<and> Target s = []);
          c = (Error s \<noteq> 0 \<and> Target s \<noteq> [])
      in ((if a then [label @ '': no path specified''] else []) @
          (if b then [label @ '': no target path specified''] else []) @
          (if c then [label @ '': error specified with target path''] else []),
          \<not> a \<and> \<not> b \<and> \<not> c))"

text \<open>
  \<^verbatim>\<open>Redirect.check\<close> assigns \<^verbatim>\<open>ok = false\<close> to its named result in both branches and
  then executes \<^verbatim>\<open>return true\<close>, which overwrites the named result.
\<close>

definition Redirect_check :: "Redirect \<Rightarrow> string \<Rightarrow> checked" where
  "Redirect_check r label =
     (let ok0 = False;
          (log1, ok1) = (if From r = [] then ([label @ '': no `from` path''], False) else ([], ok0));
          (log2, ok2) = (if To r = [] then ([label @ '': no `to` path''], False) else ([], ok1))
      in (log1 @ log2, True))"

text \<open>
  The loops of \<^verbatim>\<open>ServerConfig.check\<close>: \<^verbatim>\<open>ok = x.check(label) && ok\<close> for each element,
  with the element's index in the label.
\<close>

fun check_each :: "('a \<Rightarrow> string \<Rightarrow> checked) \<Rightarrow> string \<Rightarrow> nat \<Rightarrow> 'a list \<Rightarrow> checked \<Rightarrow> checked" where
  "check_each chk what i [] acc = acc"
| "check_each chk what i (x # xs) (logs, ok) =
     (let (lg, r) = chk x (what @ '' #'' @ itoa i @ '':'')
      in check_each chk what (Suc i) xs (logs @ lg, r \<and> ok))"

definition ServerConfig_check :: "(string \<Rightarrow> bool) \<Rightarrow> ServerConfig \<Rightarrow> checked" where
  "ServerConfig_check notExist c =
     (let a0 = (if Listeners c = [] then ([''No listeners defined!''], False) else ([], True));
          a1 = check_each (Listener_check notExist) ''Listener'' 0 (Listeners c) a0;
          a2 = (if Serves c = [] then (fst a1 @ [''No serves defined!''], False) else a1);
          a3 = check_each Serve_check ''Serve'' 0 (Serves c) a2
      in check_each Redirect_check ''Redirect'' 0 (Redirects c) a3)"

section \<open>Exchanges, panics and the response writer of net/http\<close>

text \<open>
  The state of one request/response exchange, as the handlers of this program can
  observe and change it through \<^verbatim>\<open>http.ResponseWriter\<close>:
  \<^item> \<open>hdr\<close> is the header map returned by \<^verbatim>\<open>w.Header()\<close>. None of the wrappers of this
    program overrides \<^verbatim>\<open>Header()\<close>, so all of them share the map of the underlying
    writer. Only \<^verbatim>\<open>Get\<close>, \<^verbatim>\<open>Set\<close> and \<^verbatim>\<open>Del\<close> are used, so one value per name is kept;
    header names are taken to be in canonical form.
  \<^item> \<open>sent\<close> is the status line and the header block written to the client, once written.
  \<^item> \<open>body\<close> is the sequence of body bytes written to the client.
  \<^item> \<open>gotContentType\<close> is the field of \<^verbatim>\<open>GzipResponseWriter\<close>; \<open>gz_wroteHeader\<close> and
    \<open>gz_input\<close> are the state of the \<^verbatim>\<open>gzip.Writer\<close> of the exchange.
\<close>

type_synonym header = "string \<rightharpoonup> string"


record exch =
  hdr :: header
  sent :: "(int \<times> header) option"
  body :: string
  gotContentType :: bool
  gz_wroteHeader :: bool
  gz_input :: string

text \<open>
  A panic is a result. The values this program panics with are pointers that the
  recovering function compares with its own: the \<^verbatim>\<open>interceptResponseWriter\<close> of the
  exchange, the \<^verbatim>\<open>PreventListingDir\<close> of the exchange, and (earlier generation) the
  \<^verbatim>\<open>ErrorHandlingResponseWriter\<close> of the exchange. Any other panic is \<open>PanicOther\<close>.
\<close>

datatype panic_value = PanicIRW | PanicDir | PanicEHRW | PanicOther string

datatype 'a result = Return 'a | Panic panic_value

type_synonym 'a io = "exch \<Rightarrow> 'a result \<times> exch"

definition ret :: "'a \<Rightarrow> 'a io" where
  "ret x s = (Return x, s)"

definition panic :: "panic_value \<Rightarrow> 'a io" where
  "panic p s = (Panic p, s)"

definition bindIO :: "'a io \<Rightarrow> ('a \<Rightarrow> 'b io) \<Rightarrow> 'b io" where
  "bindIO m f s = (case m s of (Return x, s1) \<Rightarrow> f x s1 | (Panic p, s1) \<Rightarrow> (Panic p, s1))"

definition seq :: "unit io \<Rightarrow> 'b io \<Rightarrow> 'b io" where
  "seq a b = bindIO a (\<lambda>_. b)"

text \<open>
  \<^verbatim>\<open>defer func() { if p := recover(); p != nil { if p == x { handler; return }; panic(p) } }()\<close>
  around a body: a panic with the value \<open>x\<close> is recovered and \<open>handler\<close> runs, any other
  panic continues.
\<close>

definition recovering :: "panic_value \<Rightarrow> unit io \<Rightarrow> unit io \<Rightarrow> unit io" where
  "recovering x handler blk s =
     (case blk s of
        (Return u, s1) \<Rightarrow> (Return u, s1)
      | (Panic p, s1) \<Rightarrow> if p = x then handler s1 else (Panic p, s1))"

definition Header_Set :: "string \<Rightarrow> string \<Rightarrow> unit io" where
  "Header_Set k v s = (Return (), s\<lparr>hdr := (hdr s)(k \<mapsto> v)\<rparr>)"

definition Header_Del :: "string \<Rightarrow> unit io" where
  "Header_Del k s = (Return (), s\<lparr>hdr := (hdr s)(k := None)\<rparr>)"

text \<open>
  \<^verbatim>\<open>http.ResponseWriter\<close> is an interface; a writer is the record of its two methods that
  act on the connection.
\<close>

record rw =
  WriteHeader :: "int \<Rightarrow> unit io"
  Write :: "string \<Rightarrow> unit io"

text \<open>
  The writer the server hands to the outermost handler (\<^verbatim>\<open>net/http\<close>, not part of this
  repository), by its contract: the first \<^verbatim>\<open>WriteHeader\<close> sends the status line with the
  headers queued at that moment; a later \<^verbatim>\<open>WriteHeader\<close> is ignored; \<^verbatim>\<open>Write\<close> sends the
  header with status 200 first if none was sent, then the bytes. Headers the server adds
  by itself (\<^verbatim>\<open>Date\<close>, a sniffed \<^verbatim>\<open>Content-Type\<close>) and failing connections are not
  modelled.
\<close>

definition response_WriteHeader :: "int \<Rightarrow> unit io" where
  "response_WriteHeader code s =
     (if sent s \<noteq> None then (Return (), s)
      else (Return (), s\<lparr>sent := Some (code, hdr s)\<rparr>))"

definition response_Write :: "string \<Rightarrow> unit io" where
  "response_Write b = seq (response_WriteHeader 200) (\<lambda>s. (Return (), s\<lparr>body := body s @ b\<rparr>))"

definition response :: rw where
  "response = \<lparr>WriteHeader = response_WriteHeader, Write = response_Write\<rparr>"

record request =
  RequestURI :: string
  URLPath :: string
  ProtoMajor :: nat
  ProtoMinor :: nat
  AcceptEncoding :: string

definition ProtoAtLeast :: "request \<Rightarrow> nat \<Rightarrow> nat \<Rightarrow> bool" where
  "ProtoAtLeast r major minor =
     (ProtoMajor r > major \<or> (ProtoMajor r = major \<and> ProtoMinor r \<ge> minor))"

type_synonym Handler = "rw \<Rightarrow> request \<Rightarrow> unit io"

text \<open>
  \<^verbatim>\<open>http.StatusText\<close>: the table of \<^verbatim>\<open>net/http\<close> as it stood when the repository was
  written, the empty string for a code it does not know.
\<close>

definition StatusText :: "int \<Rightarrow> string" where
  "StatusText c =
     (if c = 100 then ''Continue'' else if c = 101 then ''Switching Protocols''
      else if c = 200 then ''OK'' else if c = 201 then ''Created''
      else if c = 202 then ''Accepted''
      else if c = 203 then ''Non-Authoritative Information''
      else if c = 204 then ''No Content'' else if c = 205 then ''Reset Content''
      else if c = 206 then ''Partial Content'' else if c = 300 then ''Multiple Choices''
      else if c = 301 then ''Moved Permanently'' else if c = 302 then ''Found''
      else if c = 303 then ''See Other'' else if c = 304 then ''Not Modified''
      else if c = 305 then ''Use Proxy'' else if c = 307 then ''Temporary Redirect''
      else if c = 400 then ''Bad Request'' else if c = 401 then ''Unauthorized''
      else if c = 402 then ''Payment Required'' else if c = 403 then ''Forbidden''
      else if c = 404 then ''Not Found'' else if c = 405 then ''Method Not Allowed''
      else if c = 406 then ''Not Acceptable''
      else if c = 407 then ''Proxy Authentication Required''
      else if c = 408 then ''Request Timeout'' else if c = 409 then ''Conflict''
      else if c = 410 then ''Gone'' else if c = 411 then ''Length Required''
      else if c = 412 then ''Precondition Failed''
      else if c = 413 then ''Request Entity Too Large''
      else if c = 414 then ''Request URI Too Long''
      else if c = 415 then ''Unsupported Media Type''
      else if c = 416 then ''Requested Range Not Satisfiable''
      else if c = 417 then ''Expectation Failed''
      else if c = 500 then ''Internal Server Error''
      else if c = 501 then ''Not Implemented'' else if c = 502 then ''Bad Gateway''
      else if c = 503 then ''Service Unavailable'' else if c = 504 then ''Gateway Timeout''
      else if c = 505 then ''HTTP Version Not Supported''
      else [])"

text \<open>
  \<^verbatim>\<open>http.Error(w, error, code)\<close>: sets the content type and the no-sniff header, writes
  the status and prints the message with \<^verbatim>\<open>fmt.Fprintln\<close>, which appends a newline.
\<close>

definition http_Error :: "rw \<Rightarrow> string \<Rightarrow> int \<Rightarrow> unit io" where
  "http_Error w msg code =
     seq (Header_Set ''Content-Type'' ''text/plain; charset=utf-8'')
    (seq (Header_Set ''X-Content-Type-Options'' ''nosniff'')
    (seq (WriteHeader w code)
         (Write w (msg @ [CHR 0x0A]))))"

definition NotFound :: Handler where
  "NotFound w r = http_Error w ''404 page not found'' 404"

subsection \<open>The file system and the file server of net/http\<close>











definition RedirectHandler :: "string \<Rightarrow> int \<Rightarrow> Handler" where
  "RedirectHandler url code w r =
     seq (Header_Set ''Location'' url) (WriteHeader w code)"

text \<open>
  \<^verbatim>\<open>ServeMux.Handler\<close>: the handler of the longest registered pattern that matches the
  path (a pattern ending in a slash matches every path it is a prefix of, any other
  pattern matches only itself), \<^verbatim>\<open>NotFound\<close> when none matches. Host patterns and the
  redirect to the cleaned path are left out.
\<close>

definition pathMatch :: "string \<Rightarrow> string \<Rightarrow> bool" where
  "pathMatch pattern path =
     (if pattern = [] then False
      else if last pattern \<noteq> CHR ''/'' then pattern = path
      else length pattern \<le> length path \<and> take (length pattern) path = pattern)"

fun match :: "(string \<times> Handler) list \<Rightarrow> string \<Rightarrow> (nat \<times> Handler) option \<Rightarrow> (nat \<times> Handler) option" where
  "match [] path best = best"
| "match ((k, h) # es) path best =
     match es path
       (if pathMatch k path \<and> (case best of None \<Rightarrow> True | Some (n, _) \<Rightarrow> n < length k)
        then Some (length k, h) else best)"

definition ServeMux_Handler :: "(string \<times> Handler) list \<Rightarrow> request \<Rightarrow> Handler" where
  "ServeMux_Handler m r =
     (case match m (URLPath r) None of None \<Rightarrow> NotFound | Some (_, h) \<Rightarrow> h)"

text \<open>
  A straight-line handler: a sequence of calls on the writer it is given. It stands for
  an arbitrary handler wherever a statement speaks of what a handler does before and after
  one of its calls.
\<close>

datatype action = SetHeader string string | DelHeader string | CallWriteHeader int | CallWrite string

fun run :: "rw \<Rightarrow> action list \<Rightarrow> unit io" where
  "run w [] = ret ()"
| "run w (SetHeader k v # as) = seq (Header_Set k v) (run w as)"
| "run w (DelHeader k # as) = seq (Header_Del k) (run w as)"
| "run w (CallWriteHeader c # as) = seq (WriteHeader w c) (run w as)"
| "run w (CallWrite b # as) = seq (Write w b) (run w as)"

definition prog :: "action list \<Rightarrow> Handler" where
  "prog as w r = run w as"

fun written :: "action list \<Rightarrow> string" where
  "written [] = []"
| "written (CallWrite b # as) = b @ written as"
| "written (a # as) = written as"

text \<open>
  The part of a handler that runs before it sets a status or writes body bytes only
  queues headers: \<open>header_only\<close> says that a sequence of calls is of that kind,
  \<open>headers_after\<close> is the header map it leaves.
\<close>

fun header_only :: "action list \<Rightarrow> bool" where
  "header_only [] = True"
| "header_only (SetHeader k v # as) = header_only as"
| "header_only (DelHeader k # as) = header_only as"
| "header_only (a # as) = False"

fun headers_after :: "action list \<Rightarrow> header \<Rightarrow> header" where
  "headers_after [] h = h"
| "headers_after (SetHeader k v # as) h = headers_after as (h(k \<mapsto> v))"
| "headers_after (DelHeader k # as) h = headers_after as (h(k := None))"
| "headers_after (a # as) h = headers_after as h"

definition GET :: "string \<Rightarrow> request" where
  "GET path = \<lparr>RequestURI = path, URLPath = path, ProtoMajor = 1, ProtoMinor = 1,
               AcceptEncoding = []\<rparr>"

text \<open>
  One exchange as the server runs it: the handler gets the server's writer and a new
  exchange; when it returns without having sent a header, the server sends status 200.
\<close>

definition new_exch :: exch where
  "new_exch = \<lparr>hdr = Map.empty, sent = None, body = [], gotContentType = False,
               gz_wroteHeader = False, gz_input = []\<rparr>"

definition exchange :: "Handler \<Rightarrow> request \<Rightarrow> exch" where
  "exchange h r =
     (case h response r new_exch of
        (Return u, s) \<Rightarrow> snd (response_WriteHeader 200 s)
      | (Panic p, s) \<Rightarrow> s)"

definition sent_status :: "exch \<Rightarrow> int option" where
  "sent_status x = map_option fst (sent x)"




section \<open>The interception core of goserve.go\<close>

subsection \<open>Status interception\<close>

record StaticServeMux =
  routes :: "(string \<times> Handler) list"
  errors :: "int \<rightharpoonup> Handler"

definition NewStaticServeMux :: StaticServeMux where
  "NewStaticServeMux = \<lparr>routes = [], errors = Map.empty\<rparr>"

definition HandleError :: "StaticServeMux \<Rightarrow> int \<Rightarrow> Handler \<Rightarrow> string + StaticServeMux" where
  "HandleError s status handler =
     (if errors s status \<noteq> None then Inl ''Handler for error already registered''
      else Inr (s\<lparr>errors := (errors s)(status \<mapsto> handler)\<rparr>))"

text \<open>\<^verbatim>\<open>statusResponseWriter{w, Status}\<close> overrides \<^verbatim>\<open>WriteHeader\<close> only.\<close>

definition statusResponseWriter :: "rw \<Rightarrow> int \<Rightarrow> rw" where
  "statusResponseWriter w st =
     w\<lparr>WriteHeader := (\<lambda>status.
          if st < 0 then ret ()
          else if st > 0 then WriteHeader w st
          else WriteHeader w status)\<rparr>"

definition intercept :: "StaticServeMux \<Rightarrow> int \<Rightarrow> rw \<Rightarrow> request \<Rightarrow> bool io" where
  "intercept s status w req =
     (case errors s status of
        Some h \<Rightarrow> seq (h (statusResponseWriter w status) req) (ret True)
      | None \<Rightarrow>
          if status < 400 then ret False
          else seq (http_Error w (StatusText status) status) (ret True))"

text \<open>\<^verbatim>\<open>interceptResponseWriter{ResponseWriter: w, r: r, m: s}\<close> overrides \<^verbatim>\<open>WriteHeader\<close> only.\<close>

definition interceptResponseWriter :: "StaticServeMux \<Rightarrow> rw \<Rightarrow> request \<Rightarrow> rw" where
  "interceptResponseWriter m w r =
     w\<lparr>WriteHeader := (\<lambda>status.
          bindIO (intercept m status w r)
            (\<lambda>b. if b then panic PanicIRW else WriteHeader w status))\<rparr>"

definition interceptHandler :: "StaticServeMux \<Rightarrow> Handler \<Rightarrow> Handler" where
  "interceptHandler s handler w r =
     recovering PanicIRW (ret ()) (handler (interceptResponseWriter s w r) r)"

definition StaticServeMux_ServeHTTP :: "StaticServeMux \<Rightarrow> Handler" where
  "StaticServeMux_ServeHTTP s w r =
     (if RequestURI r = ''*'' then
        seq (if ProtoAtLeast r 1 1 then Header_Set ''Connection'' ''close'' else ret ())
            (WriteHeader w 400)
      else interceptHandler s (ServeMux_Handler (routes s) r) w r)"

subsection \<open>Middleware\<close>











subsection \<open>Terminal handlers and the handler of a listener\<close>


definition Redirect_handler :: "Redirect \<Rightarrow> Handler" where
  "Redirect_handler r = RedirectHandler (To r) (With r)"





section \<open>The earlier generation\<close>






section \<open>Redirect validation\<close>

lemma Redirect_check_snd: "snd (Redirect_check r label) = True"
  by (simp add: Redirect_check_def Let_def split: prod.splits)

lemma check_each_Redirect_snd:
  "snd (check_each Redirect_check what i rs acc) = snd acc"
proof (induction rs arbitrary: i acc)
  case Nil
  show ?case by simp
next
  case (Cons r rs)
  obtain logs ok where acc: "acc = (logs, ok)" by (cases acc)
  obtain lg b where rc: "Redirect_check r (what @ '' #'' @ itoa i @ '':'') = (lg, b)"
    by (cases "Redirect_check r (what @ '' #'' @ itoa i @ '':'')")
  have "b = True" using Redirect_check_snd [of r "what @ '' #'' @ itoa i @ '':''"] rc by simp
  then show ?case using Cons.IH [of "Suc i" "(logs @ lg, ok)"] acc rc by simp
qed

text \<open>
  C10. \<^verbatim>\<open>Redirect.check\<close> returns true for every redirect entry, whatever its
  \<^verbatim>\<open>from\<close> and \<^verbatim>\<open>to\<close> fields are (empty ones included), and the result of the
  startup validation \<^verbatim>\<open>ServerConfig.check\<close> is the same with the redirect list as with
  no redirects at all: a malformed redirect never makes validation fail.
\<close>

theorem C10_redirect_check_always_true:
  "snd (Redirect_check r label) = True \<and>
   snd (Redirect_check \<lparr>From = [], To = [], With = w\<rparr> label) = True \<and>
   snd (ServerConfig_check notExist c) = snd (ServerConfig_check notExist (c\<lparr>Redirects := []\<rparr>))"
proof -
  have "snd (ServerConfig_check notExist c) = snd (ServerConfig_check notExist (c\<lparr>Redirects := []\<rparr>))"
    by (simp add: ServerConfig_check_def Let_def check_each_Redirect_snd)
  then show ?thesis using Redirect_check_snd by blast
qed

section \<open>Sequencing and straight-line handlers\<close>

lemma bindIO_ret [simp]: "bindIO (ret x) f = f x"
  by (rule ext) (simp add: bindIO_def ret_def)

lemma seq_ret [simp]: "seq (ret ()) b = b"
  by (simp add: seq_def)

lemma seq_assoc: "seq (seq a b) c = seq a (seq b c)"
  by (rule ext) (simp add: seq_def bindIO_def split: prod.splits result.splits)

lemma run_append: "run w (as @ bs) = seq (run w as) (run w bs)"
proof (induction as)
  case Nil
  show ?case by simp
next
  case (Cons a as)
  then show ?case by (cases a) (simp_all add: seq_assoc)
qed

lemma run_header_only:
  "header_only as \<Longrightarrow> run w as s = (Return (), s\<lparr>hdr := headers_after as (hdr s)\<rparr>)"
proof (induction as arbitrary: s)
  case Nil
  show ?case by (simp add: ret_def)
next
  case (Cons a as)
  show ?case
  proof (cases a)
    case (SetHeader k v)
    then show ?thesis using Cons by (simp add: seq_def bindIO_def Header_Set_def)
  next
    case (DelHeader k)
    then show ?thesis using Cons by (simp add: seq_def bindIO_def Header_Del_def)
  next
    case (CallWriteHeader c)
    then show ?thesis using Cons.prems by simp
  next
    case (CallWrite b)
    then show ?thesis using Cons.prems by simp
  qed
qed

section \<open>Error statuses without an override\<close>


lemma irw_WriteHeader_unmatched:
  "errors m c = None \<Longrightarrow> 400 \<le> c \<Longrightarrow>
   WriteHeader (interceptResponseWriter m w r) c =
     seq (http_Error w (StatusText c) c) (panic PanicIRW)"
  by (rule ext) (simp add: interceptResponseWriter_def intercept_def seq_def bindIO_def ret_def
        split: prod.splits result.splits)





section \<open>Statuses with a registered override\<close>

lemma srw_WriteHeader:
  "\<exists>s'. WriteHeader (statusResponseWriter response st) x s = (Return (), s') \<and>
        body s' = body s \<and> (sent s \<noteq> None \<longrightarrow> sent s' = sent s)"
  by (simp add: statusResponseWriter_def response_def response_WriteHeader_def ret_def)

lemma srw_Write:
  "\<exists>s'. Write (statusResponseWriter response st) b s = (Return (), s') \<and>
        body s' = body s @ b \<and> (sent s \<noteq> None \<longrightarrow> sent s' = sent s)"
  by (simp add: statusResponseWriter_def response_def response_WriteHeader_def
        response_Write_def seq_def bindIO_def)

lemma run_srw:
  "fst (run (statusResponseWriter response st) as s) = Return () \<and>
   body (snd (run (statusResponseWriter response st) as s)) = body s @ written as \<and>
   (sent s \<noteq> None \<longrightarrow> sent (snd (run (statusResponseWriter response st) as s)) = sent s)"
proof (induction as arbitrary: s)
  case Nil
  show ?case by (simp add: ret_def)
next
  case (Cons a as)
  show ?case
  proof (cases a)
    case (SetHeader k v)
    then show ?thesis using Cons [of "s\<lparr>hdr := (hdr s)(k \<mapsto> v)\<rparr>"]
      by (simp add: seq_def bindIO_def Header_Set_def)
  next
    case (DelHeader k)
    then show ?thesis using Cons [of "s\<lparr>hdr := (hdr s)(k := None)\<rparr>"]
      by (simp add: seq_def bindIO_def Header_Del_def)
  next
    case (CallWriteHeader c)
    obtain s' where st: "WriteHeader (statusResponseWriter response st) c s = (Return (), s')"
      "body s' = body s" "sent s \<noteq> None \<longrightarrow> sent s' = sent s"
      using srw_WriteHeader [of st c s] by blast
    show ?thesis using CallWriteHeader st Cons [of s']
      by (auto simp add: seq_def bindIO_def)
  next
    case (CallWrite b)
    obtain s' where st: "Write (statusResponseWriter response st) b s = (Return (), s')"
      "body s' = body s @ b" "sent s \<noteq> None \<longrightarrow> sent s' = sent s"
      using srw_Write [of st b s] by blast
    show ?thesis using CallWrite st Cons [of s']
      by (auto simp add: seq_def bindIO_def)
  qed
qed

lemma irw_WriteHeader_override:
  "errors m c = Some ov \<Longrightarrow>
   WriteHeader (interceptResponseWriter m w r) c =
     seq (ov (statusResponseWriter w c) r) (panic PanicIRW)"
  by (rule ext) (simp add: interceptResponseWriter_def intercept_def seq_def bindIO_def ret_def
        split: prod.splits result.splits)

lemma exchange_intercepted:
  assumes reg: "errors m c = Some (prog ov)"
    and pre: "run (interceptResponseWriter m response r) pre new_exch = (Return (), s1)"
  shows "exchange (interceptHandler m (prog (pre @ CallWriteHeader c # post))) r =
           snd (response_WriteHeader 200 (snd (run (statusResponseWriter response c) ov s1)))"
proof -
  let ?irw = "interceptResponseWriter m response r"
  let ?srw = "statusResponseWriter response c"
  obtain s2 where ov: "run ?srw ov s1 = (Return (), s2)"
    using run_srw [of c ov s1] by (cases "run ?srw ov s1") auto
  have wh: "WriteHeader ?irw c s1 = (Panic PanicIRW, s2)"
    unfolding irw_WriteHeader_override [OF reg]
    using ov by (simp add: seq_def bindIO_def panic_def prog_def)
  have "run ?irw (pre @ CallWriteHeader c # post) new_exch = seq (WriteHeader ?irw c) (run ?irw post) s1"
    using pre by (simp add: run_append seq_def bindIO_def)
  also have "\<dots> = (Panic PanicIRW, s2)"
    using wh by (simp add: seq_def bindIO_def)
  finally show ?thesis using ov
    by (simp add: exchange_def interceptHandler_def prog_def recovering_def ret_def)
qed

text \<open>
  C1. When the handler reaches a call that sets a status \<open>c\<close> with a registered
  override, the response is the one the override handler produces, through
  \<^verbatim>\<open>statusResponseWriter{w, c}\<close>, from the state the handler had reached: it does not
  depend on what the handler would do after the call (\<open>post\<close>), so none of those writes
  reaches the client. The body is what had been written before the call followed by the
  override handler's body; it is the override handler's body alone when the handler had
  only queued headers before setting the status.
\<close>

theorem C1_override_replaces_rest:
  assumes reg: "errors m c = Some (prog ov)"
    and pre: "run (interceptResponseWriter m response r) pre new_exch = (Return (), s1)"
  shows "exchange (interceptHandler m (prog (pre @ CallWriteHeader c # post))) r =
           snd (response_WriteHeader 200 (snd (run (statusResponseWriter response c) ov s1))) \<and>
         body (exchange (interceptHandler m (prog (pre @ CallWriteHeader c # post))) r) =
           body s1 @ written ov \<and>
         (header_only pre \<longrightarrow>
            body (exchange (interceptHandler m (prog (pre @ CallWriteHeader c # post))) r) = written ov)"
proof -
  let ?s2 = "snd (run (statusResponseWriter response c) ov s1)"
  have ex: "exchange (interceptHandler m (prog (pre @ CallWriteHeader c # post))) r =
      snd (response_WriteHeader 200 ?s2)"
    by (rule exchange_intercepted [OF reg pre])
  have b2: "body ?s2 = body s1 @ written ov" using run_srw [of c ov s1] by simp
  have bex: "body (snd (response_WriteHeader 200 ?s2)) = body ?s2"
    by (simp add: response_WriteHeader_def)
  have hb: "header_only pre \<Longrightarrow> body s1 = []"
    using pre run_header_only [of pre "interceptResponseWriter m response r" new_exch]
    by (auto simp add: new_exch_def)
  show ?thesis using ex b2 bex hb by auto
qed

theorem C1_override_replaces_rest_witness:
  "errors (NewStaticServeMux\<lparr>errors := [404 \<mapsto> prog [CallWriteHeader 200, CallWrite ''<h1>gone</h1>'']]\<rparr>) 404
     = Some (prog [CallWriteHeader 200, CallWrite ''<h1>gone</h1>'']) \<and>
   header_only [SetHeader ''X-Served-By'' ''files''] \<and>
   body (exchange (interceptHandler
           (NewStaticServeMux\<lparr>errors := [404 \<mapsto> prog [CallWriteHeader 200, CallWrite ''<h1>gone</h1>'']]\<rparr>)
           (prog ([SetHeader ''X-Served-By'' ''files''] @ CallWriteHeader 404 # [CallWrite ''404 page not found'']))) (GET ''/missing''))
     = ''<h1>gone</h1>''"
proof -
  let ?ov = "[CallWriteHeader 200, CallWrite ''<h1>gone</h1>'']"
  let ?m = "NewStaticServeMux\<lparr>errors := [404 \<mapsto> prog ?ov]\<rparr>"
  let ?pre = "[SetHeader ''X-Served-By'' ''files'']"
  have reg: "errors ?m 404 = Some (prog ?ov)" by simp
  have ho: "header_only ?pre" by simp
  have pre: "run (interceptResponseWriter ?m response (GET ''/missing'')) ?pre new_exch =
      (Return (), new_exch\<lparr>hdr := headers_after ?pre (hdr new_exch)\<rparr>)"
    by (rule run_header_only [OF ho])
  have "body (exchange (interceptHandler ?m
          (prog (?pre @ CallWriteHeader 404 # [CallWrite ''404 page not found'']))) (GET ''/missing''))
        = written ?ov"
    using ho C1_override_replaces_rest [OF reg pre, of "[CallWrite ''404 page not found'']"]
    by blast
  then show ?thesis using reg ho by simp
qed



section \<open>The wildcard request target\<close>

text \<open>
  C8. For a request whose target is \<^verbatim>\<open>*\<close> the mux writes status 400 on the writer it
  was given and returns: the response has status 400, an empty body and no header but
  \<^verbatim>\<open>Connection: close\<close> (for HTTP/1.1 and later), whatever routes and overrides are
  registered. No route is consulted, no handler runs, and the interception layer, which
  would have answered 400 with a body, is not entered.
\<close>

theorem C8_wildcard_is_400:
  assumes "RequestURI r = ''*''"
  shows "exchange (StaticServeMux_ServeHTTP s) r =
           new_exch\<lparr>hdr := (if ProtoAtLeast r 1 1 then [''Connection'' \<mapsto> ''close''] else Map.empty),
                     sent := Some (400, if ProtoAtLeast r 1 1 then [''Connection'' \<mapsto> ''close''] else Map.empty)\<rparr>"
  using assms
  by (simp add: exchange_def StaticServeMux_ServeHTTP_def seq_def bindIO_def ret_def Header_Set_def
      response_def response_WriteHeader_def new_exch_def)

theorem C8_wildcard_is_400_witness:
  "RequestURI \<lparr>RequestURI = ''*'', URLPath = [], ProtoMajor = 1, ProtoMinor = 1, AcceptEncoding = []\<rparr> = ''*'' \<and>
   sent_status (exchange (StaticServeMux_ServeHTTP
      \<lparr>routes = [(''/'', prog [CallWrite ''hello''])],
        errors = [400 \<mapsto> prog [CallWrite ''custom 400 page'']]\<rparr>)
      \<lparr>RequestURI = ''*'', URLPath = [], ProtoMajor = 1, ProtoMinor = 1, AcceptEncoding = []\<rparr>) = Some 400 \<and>
   body (exchange (StaticServeMux_ServeHTTP
      \<lparr>routes = [(''/'', prog [CallWrite ''hello''])],
        errors = [400 \<mapsto> prog [CallWrite ''custom 400 page'']]\<rparr>)
      \<lparr>RequestURI = ''*'', URLPath = [], ProtoMajor = 1, ProtoMinor = 1, AcceptEncoding = []\<rparr>) = []"
proof -
  let ?r = "\<lparr>RequestURI = ''*'', URLPath = [], ProtoMajor = 1, ProtoMinor = 1, AcceptEncoding = []\<rparr>"
  have h: "RequestURI ?r = ''*''" by simp
  show ?thesis
    using h C8_wildcard_is_400 [OF h, of "\<lparr>routes = [(''/'', prog [CallWrite ''hello''])],
        errors = [400 \<mapsto> prog [CallWrite ''custom 400 page'']]\<rparr>"]
    by (simp add: sent_status_def new_exch_def)
qed

section \<open>Setting a status after the header has been sent\<close>

text \<open>
  C4, as stated: a second status-setting call after the header has been sent is a no-op.
  It is not when the second status is an error status: the handler that sets 200 and then
  404 is cut off at the second call and the client receives the text of the 404, so the
  exchange differs from the one where the second call is left out.
\<close>

theorem C4_second_status_not_noop:
  "exchange (interceptHandler NewStaticServeMux
       (prog [CallWriteHeader 200, CallWriteHeader 404, CallWrite ''tail''])) (GET ''/'')
   \<noteq> exchange (interceptHandler NewStaticServeMux
       (prog [CallWriteHeader 200, CallWrite ''tail''])) (GET ''/'')"
  by (simp add: exchange_def interceptHandler_def prog_def interceptResponseWriter_def
        intercept_def NewStaticServeMux_def recovering_def ret_def panic_def seq_def bindIO_def
        http_Error_def Header_Set_def response_def response_WriteHeader_def response_Write_def
        new_exch_def StatusText_def)

text \<open>
  C4, amended: once the header has been sent, a further status-setting call through
  the intercepting writer never changes the status line that was sent. It is a no-op
  when the status is below 400 and has no override. For a status from 400 on without an
  override the reason phrase is appended to the body, for a status with an override the
  override handler's output is appended, and in both cases the calling handler is
  aborted by the interceptor's panic. The interceptor keeps no record of the header
  having been sent.
\<close>

theorem C4_second_status:
  assumes snt: "sent s \<noteq> None"
  shows "(errors m c = None \<and> c < 400 \<longrightarrow>
            WriteHeader (interceptResponseWriter m response r) c s = (Return (), s)) \<and>
         (errors m c = None \<and> 400 \<le> c \<longrightarrow>
            WriteHeader (interceptResponseWriter m response r) c s =
              (Panic PanicIRW,
               s\<lparr>hdr := (hdr s)(''Content-Type'' \<mapsto> ''text/plain; charset=utf-8'',
                                 ''X-Content-Type-Options'' \<mapsto> ''nosniff''),
                 body := body s @ StatusText c @ [CHR 0x0A]\<rparr>)) \<and>
         (errors m c = Some (prog ov) \<longrightarrow>
            WriteHeader (interceptResponseWriter m response r) c s =
              (Panic PanicIRW, snd (run (statusResponseWriter response c) ov s)) \<and>
            body (snd (run (statusResponseWriter response c) ov s)) = body s @ written ov) \<and>
         (errors m c = None \<or> errors m c = Some (prog ov) \<longrightarrow>
            sent (snd (WriteHeader (interceptResponseWriter m response r) c s)) = sent s)"
proof -
  let ?irw = "interceptResponseWriter m response r"
  let ?srw = "statusResponseWriter response c"
  have a: "WriteHeader ?irw c s = (Return (), s)" if "errors m c = None" "c < 400"
    using that snt
    by (simp add: interceptResponseWriter_def intercept_def bindIO_def ret_def response_def
        response_WriteHeader_def)
  have b: "WriteHeader ?irw c s =
              (Panic PanicIRW,
               s\<lparr>hdr := (hdr s)(''Content-Type'' \<mapsto> ''text/plain; charset=utf-8'',
                                 ''X-Content-Type-Options'' \<mapsto> ''nosniff''),
                 body := body s @ StatusText c @ [CHR 0x0A]\<rparr>)" if "errors m c = None" "400 \<le> c"
    unfolding irw_WriteHeader_unmatched [OF that]
    using snt
    by (simp add: http_Error_def seq_def bindIO_def panic_def Header_Set_def response_def
        response_WriteHeader_def response_Write_def)
  have c1: "WriteHeader ?irw c s = (Panic PanicIRW, snd (run ?srw ov s))" if "errors m c = Some (prog ov)"
  proof -
    obtain s2 where ov: "run ?srw ov s = (Return (), s2)"
      using run_srw [of c ov s] by (cases "run ?srw ov s") auto
    show ?thesis
      unfolding irw_WriteHeader_override [OF that]
      using ov by (simp add: seq_def bindIO_def panic_def prog_def)
  qed
  have c2: "body (snd (run ?srw ov s)) = body s @ written ov"
    and c3: "sent (snd (run ?srw ov s)) = sent s"
    using run_srw [of c ov s] snt by simp_all
  have d: "sent (snd (WriteHeader ?irw c s)) = sent s" if "errors m c = None"
  proof (cases "c < 400")
    case True
    then show ?thesis using a [OF that] by simp
  next
    case False
    then have "400 \<le> c" by simp
    then show ?thesis using b [OF that] by simp
  qed
  have e: "sent (snd (WriteHeader ?irw c s)) = sent s" if "errors m c = Some (prog ov)"
    using c1 [OF that] c3 by simp
  show ?thesis using a b c1 c2 d e by blast
qed

theorem C4_second_status_witness:
  "sent (new_exch\<lparr>sent := Some (200, Map.empty)\<rparr>) \<noteq> None \<and>
   WriteHeader (interceptResponseWriter
       (NewStaticServeMux\<lparr>errors := [410 \<mapsto> prog [CallWrite ''gone'']]\<rparr>) response (GET ''/'')) 302
       (new_exch\<lparr>sent := Some (200, Map.empty)\<rparr>)
     = (Return (), new_exch\<lparr>sent := Some (200, Map.empty)\<rparr>) \<and>
   sent (snd (WriteHeader (interceptResponseWriter
       (NewStaticServeMux\<lparr>errors := [410 \<mapsto> prog [CallWrite ''gone'']]\<rparr>) response (GET ''/'')) 404
       (new_exch\<lparr>sent := Some (200, Map.empty)\<rparr>)))
     = Some (200, Map.empty) \<and>
   body (snd (WriteHeader (interceptResponseWriter
       (NewStaticServeMux\<lparr>errors := [410 \<mapsto> prog [CallWrite ''gone'']]\<rparr>) response (GET ''/'')) 404
       (new_exch\<lparr>sent := Some (200, Map.empty)\<rparr>)))
     = ''Not Found'' @ [CHR 0x0A] \<and>
   sent (snd (WriteHeader (interceptResponseWriter
       (NewStaticServeMux\<lparr>errors := [410 \<mapsto> prog [CallWrite ''gone'']]\<rparr>) response (GET ''/'')) 410
       (new_exch\<lparr>sent := Some (200, Map.empty)\<rparr>)))
     = Some (200, Map.empty)"
proof -
  let ?m = "NewStaticServeMux\<lparr>errors := [410 \<mapsto> prog [CallWrite ''gone'']]\<rparr>"
  let ?s = "new_exch\<lparr>sent := Some (200, Map.empty)\<rparr>"
  have snt: "sent ?s \<noteq> None" by simp
  have e302: "errors ?m 302 = None \<and> (302::int) < 400"
    and e404: "errors ?m 404 = None \<and> (400::int) \<le> 404"
    and e410: "errors ?m 410 = None \<or> errors ?m 410 = Some (prog [CallWrite ''gone''])"
    by (simp_all add: NewStaticServeMux_def)
  have a: "WriteHeader (interceptResponseWriter ?m response (GET ''/'')) 302 ?s = (Return (), ?s)"
    using C4_second_status [OF snt, where m = ?m and c = 302 and r = "GET ''/''" and ov = "[]"] e302
    by blast
  have b: "WriteHeader (interceptResponseWriter ?m response (GET ''/'')) 404 ?s =
      (Panic PanicIRW,
       ?s\<lparr>hdr := (hdr ?s)(''Content-Type'' \<mapsto> ''text/plain; charset=utf-8'',
                          ''X-Content-Type-Options'' \<mapsto> ''nosniff''),
          body := body ?s @ StatusText 404 @ [CHR 0x0A]\<rparr>)"
    using C4_second_status [OF snt, where m = ?m and c = 404 and r = "GET ''/''" and ov = "[]"] e404
    by blast
  have c: "sent (snd (WriteHeader (interceptResponseWriter ?m response (GET ''/'')) 410 ?s)) = sent ?s"
    using C4_second_status [OF snt, where m = ?m and c = 410 and r = "GET ''/''"
        and ov = "[CallWrite ''gone'']"] e410
    by blast
  show ?thesis using snt a b c by (simp add: StatusText_def new_exch_def)
qed

section \<open>Headers queued before an interception\<close>









section \<open>Serving a file through the mux, and header injection\<close>


















section \<open>The directory-listing guard\<close>













section \<open>Compression\<close>









end
